theory Spec2Isabelle
  imports Complex_Main
begin

section \<open>Geometries and geo data frames\<close>

text \<open>
  The script \<^verbatim>\<open>app.py\<close> loads two GeoJSON layers, reprojects them, counts the rows of
  the point layer joined to each neighbourhood polygon, colours the polygons by that
  count, draws markers and a heat map, and offers the counts as a CSV download.

  A shapely geometry is a value of \<open>geometry\<close>. Coordinates are Python floats; only
  their comparison is used below, so a finite float is read as the real number it
  denotes. \<open>Point None\<close> is \<^verbatim>\<open>POINT EMPTY\<close>; a geometry with no coordinates is empty.
  A row of a geometry column may hold no geometry at all (Python's \<^verbatim>\<open>None\<close>), hence
  \<open>geometry option\<close>.
\<close>

type_synonym coord = "real \<times> real"

datatype geometry =
    Point "coord option"
  | MultiPoint "coord list"
  | LineString "coord list"
  | Polygon "coord list"
  | MultiPolygon "coord list list"

fun geom_type :: "geometry \<Rightarrow> string" where
  "geom_type (Point _) = ''Point''"
| "geom_type (MultiPoint _) = ''MultiPoint''"
| "geom_type (LineString _) = ''LineString''"
| "geom_type (Polygon _) = ''Polygon''"
| "geom_type (MultiPolygon _) = ''MultiPolygon''"

fun is_empty :: "geometry \<Rightarrow> bool" where
  "is_empty (Point p) = (p = None)"
| "is_empty (MultiPoint ps) = (ps = [])"
| "is_empty (LineString ps) = (ps = [])"
| "is_empty (Polygon ring) = (ring = [])"
| "is_empty (MultiPolygon rings) = (concat rings = [])"

fun coords :: "geometry \<Rightarrow> coord list" where
  "coords (Point None) = []"
| "coords (Point (Some c)) = [c]"
| "coords (MultiPoint ps) = ps"
| "coords (LineString ps) = ps"
| "coords (Polygon ring) = ring"
| "coords (MultiPolygon rings) = concat rings"

fun map_coords :: "(coord \<Rightarrow> coord) \<Rightarrow> geometry \<Rightarrow> geometry" where
  "map_coords f (Point p) = Point (map_option f p)"
| "map_coords f (MultiPoint ps) = MultiPoint (map f ps)"
| "map_coords f (LineString ps) = LineString (map f ps)"
| "map_coords f (Polygon ring) = Polygon (map f ring)"
| "map_coords f (MultiPolygon rings) = MultiPolygon (map (map f) rings)"

text \<open>
  A cell of an attribute column, and a \<^verbatim>\<open>GeoDataFrame\<close> as \<^verbatim>\<open>gpd.read_file\<close> builds it:
  a coordinate reference system (its EPSG code, \<open>None\<close> for a frame without one), the
  geometry column, and the attribute columns by name. Python text is a list of Unicode
  code points. The index of such a frame is the range \<open>0..<n\<close> of its row positions.
\<close>

type_synonym py_str = "nat list"

datatype cell = Null | IntCell int | StrCell py_str

record gdf =
  crs :: "nat option"
  geoms :: "geometry option list"
  cols :: "string \<rightharpoonup> cell list"

definition index :: "gdf \<Rightarrow> nat list" where
  "index df = [0..<length (geoms df)]"

section \<open>Spatial Aggregator (lines 56-58)\<close>

text \<open>
  \<^verbatim>\<open>join = gpd.sjoin(bairros_data, df_sb, how="left", predicate="contains")\<close>
  \<^verbatim>\<open>counts = join.groupby(join.index).size()\<close>
  \<^verbatim>\<open>bairros_data["sistemas_bancarios"] = counts.reindex(bairros_data.index, fill_value=0)\<close>

  The geometric predicate itself (GEOS \<^verbatim>\<open>contains\<close>) is a parameter. The spatial index
  behind \<^verbatim>\<open>sjoin\<close> never pairs a missing or empty geometry with anything. A left join
  keeps every left row: a left row with matches appears once per matching right row,
  and a left row without any match appears once, with no right index. \<^verbatim>\<open>size()\<close>
  counts the rows of each group, and \<^verbatim>\<open>reindex\<close> looks every label of the new index
  up, putting the fill value where the label is absent.
\<close>

definition pair_matches ::
  "(geometry \<Rightarrow> geometry \<Rightarrow> bool) \<Rightarrow> geometry option \<Rightarrow> geometry option \<Rightarrow> bool" where
  "pair_matches contains p q =
     (case p of None \<Rightarrow> False
      | Some a \<Rightarrow> (case q of None \<Rightarrow> False
          | Some b \<Rightarrow> \<not> is_empty a \<and> \<not> is_empty b \<and> contains a b))"

definition matches ::
  "(geometry \<Rightarrow> geometry \<Rightarrow> bool) \<Rightarrow> geometry option \<Rightarrow> geometry option list \<Rightarrow> nat list" where
  "matches contains p right = filter (\<lambda>j. pair_matches contains p (right ! j)) [0..<length right]"

type_synonym join_row = "nat \<times> nat option"

definition left_rows ::
  "(geometry \<Rightarrow> geometry \<Rightarrow> bool) \<Rightarrow> geometry option list \<Rightarrow> geometry option list \<Rightarrow> nat \<Rightarrow> join_row list" where
  "left_rows contains left right i =
     (case matches contains (left ! i) right of
        [] \<Rightarrow> [(i, None)]
      | j # js \<Rightarrow> map (\<lambda>k. (i, Some k)) (j # js))"

definition sjoin_left ::
  "(geometry \<Rightarrow> geometry \<Rightarrow> bool) \<Rightarrow> geometry option list \<Rightarrow> geometry option list \<Rightarrow> join_row list" where
  "sjoin_left contains left right = concat (map (left_rows contains left right) [0..<length left])"

definition groupby_size :: "join_row list \<Rightarrow> (nat \<rightharpoonup> int)" where
  "groupby_size join k =
     (let n = length (filter (\<lambda>r. fst r = k) join) in if n = 0 then None else Some (int n))"

definition reindex :: "(nat \<rightharpoonup> int) \<Rightarrow> nat list \<Rightarrow> int \<Rightarrow> int list" where
  "reindex counts idx fill_value = map (\<lambda>k. case counts k of None \<Rightarrow> fill_value | Some c \<Rightarrow> c) idx"

definition sistemas_bancarios ::
  "(geometry \<Rightarrow> geometry \<Rightarrow> bool) \<Rightarrow> geometry option list \<Rightarrow> geometry option list \<Rightarrow> int list" where
  "sistemas_bancarios contains left right =
     reindex (groupby_size (sjoin_left contains left right)) [0..<length left] 0"

definition aggregate :: "(geometry \<Rightarrow> geometry \<Rightarrow> bool) \<Rightarrow> gdf \<Rightarrow> gdf \<Rightarrow> gdf" where
  "aggregate contains bairros_data df_sb =
     bairros_data\<lparr>cols := (cols bairros_data)(''sistemas_bancarios'' \<mapsto>
        map IntCell (sistemas_bancarios contains (geoms bairros_data) (geoms df_sb)))\<rparr>"

text \<open>
  For the concrete examples: the \<^verbatim>\<open>contains\<close> predicate on an axis-parallel rectangle
  (a polygon whose ring lists the four corners) and a point or a multi-point. A point is
  contained when it lies strictly inside; a multi-point when none of its points lies
  outside the closed rectangle and one lies strictly inside.
\<close>

definition inside :: "coord list \<Rightarrow> coord \<Rightarrow> bool" where
  "inside ring c =
     (list_ex (\<lambda>a. fst a < fst c) ring \<and> list_ex (\<lambda>a. fst c < fst a) ring \<and>
      list_ex (\<lambda>a. snd a < snd c) ring \<and> list_ex (\<lambda>a. snd c < snd a) ring)"

definition within_closed :: "coord list \<Rightarrow> coord \<Rightarrow> bool" where
  "within_closed ring c =
     (list_ex (\<lambda>a. fst a \<le> fst c) ring \<and> list_ex (\<lambda>a. fst c \<le> fst a) ring \<and>
      list_ex (\<lambda>a. snd a \<le> snd c) ring \<and> list_ex (\<lambda>a. snd c \<le> snd a) ring)"

fun rect_contains :: "geometry \<Rightarrow> geometry \<Rightarrow> bool" where
  "rect_contains (Polygon ring) (Point (Some c)) = inside ring c"
| "rect_contains (Polygon ring) (MultiPoint ps) =
     (list_all (within_closed ring) ps \<and> list_ex (inside ring) ps)"
| "rect_contains _ _ = False"

definition square :: "geometry" where
  "square = Polygon [(0, 0), (4, 0), (4, 4), (0, 4)]"

definition far_square :: "geometry" where
  "far_square = Polygon [(10, 10), (12, 10), (12, 12), (10, 12)]"

definition wide_square :: "geometry" where
  "wide_square = Polygon [(-1, -1), (6, -1), (6, 6), (-1, 6)]"

text \<open>
  The quantities the specification speaks of, written after its words, to be compared
  with what the code computes: the number of simple, non-empty point geometries of the
  point layer that a polygon contains, and the number of rows of the point layer that
  lie in at least one polygon.
\<close>

fun is_simple_point :: "geometry option \<Rightarrow> bool" where
  "is_simple_point (Some (Point (Some c))) = True"
| "is_simple_point _ = False"

definition spec_point_count ::
  "(geometry \<Rightarrow> geometry \<Rightarrow> bool) \<Rightarrow> geometry option \<Rightarrow> geometry option list \<Rightarrow> int" where
  "spec_point_count contains p right =
     int (length (filter (\<lambda>q. is_simple_point q \<and> pair_matches contains p q) right))"

definition spec_points_inside_any ::
  "(geometry \<Rightarrow> geometry \<Rightarrow> bool) \<Rightarrow> geometry option list \<Rightarrow> geometry option list \<Rightarrow> int" where
  "spec_points_inside_any contains left right =
     int (length (filter (\<lambda>q. list_ex (\<lambda>p. pair_matches contains p q) left) right))"

section \<open>Remote Dataset Loader (lines 26-48)\<close>

text \<open>
  What the script shows and what it takes from the network is a parameter, the \<open>world\<close>:
  \<^verbatim>\<open>requests.get\<close> raises (the text of the exception is kept) or returns a response;
  \<^verbatim>\<open>gpd.read_file\<close> raises or returns a frame; the projection of a coordinate from one
  reference system to another and the \<^verbatim>\<open>contains\<close> predicate belong to the geometry
  libraries; \<^verbatim>\<open>os.linesep\<close> depends on the platform. A raised exception is \<open>Inl\<close> of
  its text. The cache decorator hands back what an earlier cycle computed and is left
  out: a world says what a load yields in the cycle at hand.
\<close>

datatype py_error = ValueError | KeyError | AttributeError | AssertionError | UnicodeEncodeError

datatype os = Posix | Windows

record response =
  status_code :: nat
  reason :: string
  url :: string
  content :: string

record world =
  requests_get :: "string \<Rightarrow> string + response"
  read_file :: "string \<Rightarrow> string + gdf"
  project :: "nat \<Rightarrow> nat \<Rightarrow> coord \<Rightarrow> coord"
  geos_contains :: "geometry \<Rightarrow> geometry \<Rightarrow> bool"
  platform :: os

definition digit_char :: "nat \<Rightarrow> char" where
  "digit_char d = ''0123456789abcdef'' ! d"

function digits :: "nat \<Rightarrow> nat \<Rightarrow> string" where
  "digits base n =
     (if n < base \<or> base < 2 then [digit_char n] else digits base (n div base) @ [digit_char (n mod base)])"
  by pat_completeness auto
termination
  by (relation "measure (\<lambda>(base, n). n)") auto

declare digits.simps [simp del]

definition str_int :: "int \<Rightarrow> string" where
  "str_int i = (if i < 0 then ''-'' @ digits 10 (nat (- i)) else digits 10 (nat i))"

text \<open>\<^verbatim>\<open>Response.raise_for_status\<close> raises for the status codes 400 to 599 only.\<close>

definition raise_for_status :: "response \<Rightarrow> string + unit" where
  "raise_for_status r =
     (if 400 \<le> status_code r \<and> status_code r < 500
      then Inl (str_int (int (status_code r)) @ '' Client Error: '' @ reason r @ '' for url: '' @ url r)
      else if 500 \<le> status_code r \<and> status_code r < 600
      then Inl (str_int (int (status_code r)) @ '' Server Error: '' @ reason r @ '' for url: '' @ url r)
      else Inr ())"

datatype layer =
    GeoJson "(cell \<times> int \<times> string) list"
  | MarkerCluster "real list list"
  | HeatMap "real list list"

datatype ui =
    St_error string
  | St_folium string "layer list"
  | St_download_button string

definition fetch_and_parse :: "world \<Rightarrow> string \<Rightarrow> string + gdf" where
  "fetch_and_parse w u =
     (case requests_get w u of
        Inl e \<Rightarrow> Inl e
      | Inr resp \<Rightarrow>
          (case raise_for_status resp of
             Inl e \<Rightarrow> Inl e
           | Inr _ \<Rightarrow> read_file w (content resp)))"

definition load_geojson_from_github :: "world \<Rightarrow> string \<Rightarrow> ui list \<times> gdf option" where
  "load_geojson_from_github w u =
     (case fetch_and_parse w u of
        Inl e \<Rightarrow> ([St_error (''Erro ao carregar o arquivo: '' @ e), St_error (''URL tentada: '' @ u)], None)
      | Inr g \<Rightarrow> ([], Some g))"

definition GITHUB_RAW_URL :: string where
  "GITHUB_RAW_URL = ''https://raw.githubusercontent.com/Analissoares/meu-repositorio/main/''"

definition BAIRROS_URL :: string where
  "BAIRROS_URL = GITHUB_RAW_URL @ ''dados/bairros.geojson''"

definition SB_URL :: string where
  "SB_URL = GITHUB_RAW_URL @ ''dados/dados_SB.geojson''"

section \<open>Coordinate Normalizer (lines 52-53)\<close>

text \<open>
  \<^verbatim>\<open>to_crs(epsg=4326)\<close>: a frame without a reference system cannot be transformed
  (\<^verbatim>\<open>ValueError\<close>); a frame that is in the target system already is returned as it is;
  otherwise every coordinate goes through the projection and the frame is tagged with
  the target system.
\<close>

definition to_crs :: "(nat \<Rightarrow> nat \<Rightarrow> coord \<Rightarrow> coord) \<Rightarrow> nat \<Rightarrow> gdf \<Rightarrow> py_error + gdf" where
  "to_crs proj epsg df =
     (case crs df of
        None \<Rightarrow> Inl ValueError
      | Some c \<Rightarrow>
          if c = epsg then Inr df
          else Inr (df\<lparr>crs := Some epsg,
                       geoms := map (map_option (map_coords (proj c epsg))) (geoms df)\<rparr>))"

definition in_bounds :: "coord \<Rightarrow> bool" where
  "in_bounds c = (- 180 \<le> fst c \<and> fst c \<le> 180 \<and> - 90 \<le> snd c \<and> snd c \<le> 90)"

definition all_in_bounds :: "gdf \<Rightarrow> bool" where
  "all_in_bounds df =
     list_all (\<lambda>g. case g of None \<Rightarrow> True | Some a \<Rightarrow> list_all in_bounds (coords a)) (geoms df)"

definition frame_coords :: "gdf \<Rightarrow> coord list" where
  "frame_coords df = concat (map (\<lambda>g. case g of None \<Rightarrow> [] | Some a \<Rightarrow> coords a) (geoms df))"

text \<open>For the concrete examples: a projection that shifts every coordinate by one degree.\<close>

definition shift_projection :: "nat \<Rightarrow> nat \<Rightarrow> coord \<Rightarrow> coord" where
  "shift_projection src dst c = (fst c + 1, snd c + 1)"

section \<open>Choropleth Styler (lines 75-92)\<close>

text \<open>
  \<^verbatim>\<open>branca.colormap.LinearColormap\<close> with three colours and no explicit index: the index
  spreads the colours evenly from \<open>vmin\<close> to \<open>vmax\<close>. A value at or below the first
  index has the first colour, a value at or above the last index the last colour; a
  value between two different thresholds is interpolated, and the quotient is only
  formed when they differ. The call of a colour map gives the colour as
  \<^verbatim>\<open>"#%02x%02x%02x%02x"\<close> of the four channels scaled by 255.9999 and truncated.
  Floats are read as reals.
\<close>

type_synonym rgba = "real \<times> real \<times> real \<times> real"

record colormap =
  cm_index :: "real list"
  cm_colors :: "rgba list"

definition palette :: "rgba list" where
  "palette = [(254 / 255, 249 / 255, 239 / 255, 1),
              (243 / 255, 217 / 255, 177 / 255, 1),
              (216 / 255, 176 / 255, 122 / 255, 1)]"

definition LinearColormap :: "rgba list \<Rightarrow> real \<Rightarrow> real \<Rightarrow> py_error + colormap" where
  "LinearColormap colors vmin vmax =
     (let n = length colors in
      if n < 2 then Inl ValueError
      else Inr \<lparr>cm_index = map (\<lambda>i. vmin + (vmax - vmin) * real i * 1 / real (n - 1)) [0..<n],
                cm_colors = colors\<rparr>)"

definition blend :: "real \<Rightarrow> rgba \<Rightarrow> rgba \<Rightarrow> rgba" where
  "blend p a b =
     (case a of (a0, a1, a2, a3) \<Rightarrow> case b of (b0, b1, b2, b3) \<Rightarrow>
        ((1 - p) * a0 + p * b0, (1 - p) * a1 + p * b1, (1 - p) * a2 + p * b2, (1 - p) * a3 + p * b3))"

definition rgba_floats_tuple :: "colormap \<Rightarrow> real \<Rightarrow> py_error + rgba" where
  "rgba_floats_tuple cm x =
     (if x \<le> hd (cm_index cm) then Inr (hd (cm_colors cm))
      else if last (cm_index cm) \<le> x then Inr (last (cm_colors cm))
      else
        let i = length (filter (\<lambda>u. u < x) (cm_index cm));
            lo = cm_index cm ! (i - 1);
            hi = cm_index cm ! i
        in if lo < hi
           then Inr (blend ((x - lo) * 1 / (hi - lo)) (cm_colors cm ! (i - 1)) (cm_colors cm ! i))
           else if lo = hi
           then Inr (blend 1 (cm_colors cm ! (i - 1)) (cm_colors cm ! i))
           else Inl ValueError)"

definition py_int :: "real \<Rightarrow> int" where
  "py_int r = (if 0 \<le> r then \<lfloor>r\<rfloor> else \<lceil>r\<rceil>)"

definition fmt_02x :: "int \<Rightarrow> string" where
  "fmt_02x i =
     (let s = (if i < 0 then ''-'' @ digits 16 (nat (- i)) else digits 16 (nat i))
      in replicate (2 - length s) CHR ''0'' @ s)"

definition rgba_hex_str :: "rgba \<Rightarrow> string" where
  "rgba_hex_str c =
     (case c of (r, g, b, a) \<Rightarrow>
        ''#'' @ fmt_02x (py_int (r * 255.9999)) @ fmt_02x (py_int (g * 255.9999)) @
        fmt_02x (py_int (b * 255.9999)) @ fmt_02x (py_int (a * 255.9999)))"

definition call_colormap :: "colormap \<Rightarrow> real \<Rightarrow> py_error + string" where
  "call_colormap cm x =
     (case rgba_floats_tuple cm x of Inl e \<Rightarrow> Inl e | Inr c \<Rightarrow> Inr (rgba_hex_str c))"

fun traverse :: "('a \<Rightarrow> 'e + 'b) \<Rightarrow> 'a list \<Rightarrow> 'e + 'b list" where
  "traverse f [] = Inr []"
| "traverse f (x # xs) =
     (case f x of
        Inl e \<Rightarrow> Inl e
      | Inr y \<Rightarrow> (case traverse f xs of Inl e \<Rightarrow> Inl e | Inr ys \<Rightarrow> Inr (y # ys)))"

text \<open>
  The fill colours of the polygons, in the order of the frame: the colour map is built
  from the least and the greatest count, and \<open>style_function\<close> calls it on the count of
  each feature. A frame without rows has no feature to style.
\<close>

definition fill_colors :: "int list \<Rightarrow> py_error + string list" where
  "fill_colors counts =
     (case counts of
        [] \<Rightarrow> Inr []
      | c # cs \<Rightarrow>
          (case LinearColormap palette (real_of_int (Min (set counts))) (real_of_int (Max (set counts))) of
             Inl e \<Rightarrow> Inl e
           | Inr cm \<Rightarrow> traverse (\<lambda>v. call_colormap cm (real_of_int v)) counts))"

section \<open>Markers and heat map (lines 116-129)\<close>

text \<open>
  \<^verbatim>\<open>locations = [[geom.y, geom.x] for geom in df_sb.geometry\<close>
  \<^verbatim>\<open>             if geom and geom.geom_type == 'Point' and not geom.is_empty]\<close>

  A geometry is true when it is not empty, and \<^verbatim>\<open>None\<close> is false. The attributes
  \<^verbatim>\<open>x\<close> and \<^verbatim>\<open>y\<close> exist for a point with coordinates only.
\<close>

definition truthy :: "geometry option \<Rightarrow> bool" where
  "truthy g = (case g of None \<Rightarrow> False | Some a \<Rightarrow> \<not> is_empty a)"

definition keeps :: "geometry option \<Rightarrow> bool" where
  "keeps g = (truthy g \<and> (case g of None \<Rightarrow> False | Some a \<Rightarrow> geom_type a = ''Point'' \<and> \<not> is_empty a))"

fun y_x :: "geometry option \<Rightarrow> py_error + real list" where
  "y_x (Some (Point (Some (x, y)))) = Inr [y, x]"
| "y_x _ = Inl AttributeError"

definition locations :: "geometry option list \<Rightarrow> py_error + real list list" where
  "locations gs = traverse y_x (filter keeps gs)"

record config =
  tile_layer :: string
  show_heatmap :: bool
  show_clusters :: bool

definition point_layers :: "config \<Rightarrow> real list list \<Rightarrow> layer list" where
  "point_layers cfg locs =
     (if show_clusters cfg then [MarkerCluster locs] else []) @
     (if show_heatmap cfg \<and> locs \<noteq> [] then [HeatMap locs] else [])"

fun is_HeatMap :: "layer \<Rightarrow> bool" where
  "is_HeatMap (HeatMap _) = True"
| "is_HeatMap _ = False"

fun layer_locations :: "layer \<Rightarrow> real list list" where
  "layer_locations (MarkerCluster ls) = ls"
| "layer_locations (HeatMap ls) = ls"
| "layer_locations (GeoJson _) = []"

section \<open>Export Encoder (lines 149-153)\<close>

text \<open>
  \<^verbatim>\<open>df.to_csv(index=False).encode('utf-8')\<close>: the header row and one row per row of the
  frame, fields separated by commas, rows ended by \<^verbatim>\<open>os.linesep\<close>. The writer quotes a
  field only when it holds the delimiter, the quote character, a carriage return, a
  line feed or a character of the line terminator, and then doubles the quote
  characters in it; a missing value is written as nothing; a row that is one empty
  field is written as two quotes. The encoding has no bytes for a surrogate code point.
\<close>

definition ascii :: "string \<Rightarrow> py_str" where
  "ascii s = map of_char s"

fun linesep :: "os \<Rightarrow> py_str" where
  "linesep Posix = [10]"
| "linesep Windows = [13, 10]"

definition csv_special :: "py_str \<Rightarrow> nat \<Rightarrow> bool" where
  "csv_special lineterminator c =
     (c = 44 \<or> c = 34 \<or> c = 13 \<or> c = 10 \<or> c \<in> set lineterminator)"

definition csv_field :: "py_str \<Rightarrow> py_str \<Rightarrow> py_str" where
  "csv_field lineterminator s =
     (if list_ex (csv_special lineterminator) s
      then [34] @ concat (map (\<lambda>c. if c = 34 then [34, 34] else [c]) s) @ [34]
      else s)"

fun cell_text :: "cell \<Rightarrow> py_str" where
  "cell_text Null = []"
| "cell_text (IntCell i) = ascii (str_int i)"
| "cell_text (StrCell s) = s"

fun join_fields :: "py_str list \<Rightarrow> py_str" where
  "join_fields [] = []"
| "join_fields [f] = f"
| "join_fields (f # g # fs) = f @ [44] @ join_fields (g # fs)"

definition csv_row :: "py_str \<Rightarrow> cell list \<Rightarrow> py_str" where
  "csv_row lineterminator cells =
     (let fs = map (\<lambda>c. csv_field lineterminator (cell_text c)) cells
      in (if fs = [[]] then [34, 34] else join_fields fs) @ lineterminator)"

definition to_csv :: "py_str \<Rightarrow> string list \<times> cell list list \<Rightarrow> py_str" where
  "to_csv lineterminator df =
     csv_row lineterminator (map (\<lambda>n. StrCell (ascii n)) (fst df)) @
     concat (map (csv_row lineterminator) (snd df))"

definition utf8_char :: "nat \<Rightarrow> py_error + string" where
  "utf8_char cp =
     (if cp < 0x80 then Inr [char_of cp]
      else if cp < 0x800 then Inr [char_of (0xC0 + cp div 64), char_of (0x80 + cp mod 64)]
      else if 0xD800 \<le> cp \<and> cp < 0xE000 then Inl UnicodeEncodeError
      else if cp < 0x10000
      then Inr [char_of (0xE0 + cp div 4096), char_of (0x80 + cp div 64 mod 64),
                char_of (0x80 + cp mod 64)]
      else if cp < 0x110000
      then Inr [char_of (0xF0 + cp div 262144), char_of (0x80 + cp div 4096 mod 64),
                char_of (0x80 + cp div 64 mod 64), char_of (0x80 + cp mod 64)]
      else Inl UnicodeEncodeError)"

definition encode_utf8 :: "py_str \<Rightarrow> py_error + string" where
  "encode_utf8 s = (case traverse utf8_char s of Inl e \<Rightarrow> Inl e | Inr bs \<Rightarrow> Inr (concat bs))"

definition convert_df :: "os \<Rightarrow> string list \<times> cell list list \<Rightarrow> py_error + string" where
  "convert_df pf df = encode_utf8 (to_csv (linesep pf) df)"

text \<open>
  \<^verbatim>\<open>bairros_data[['NOME', 'sistemas_bancarios']]\<close>: the named columns, row by row; a
  missing column is a \<^verbatim>\<open>KeyError\<close>. Every column of a frame has one cell per row.
\<close>

definition cell_at :: "gdf \<Rightarrow> nat \<Rightarrow> string \<Rightarrow> cell" where
  "cell_at df i n = (case cols df n of None \<Rightarrow> Null | Some cs \<Rightarrow> if i < length cs then cs ! i else Null)"

definition select_columns :: "gdf \<Rightarrow> string list \<Rightarrow> py_error + string list \<times> cell list list" where
  "select_columns df names =
     (if list_all (\<lambda>n. cols df n \<noteq> None) names
      then Inr (names, map (\<lambda>i. map (cell_at df i) names) (index df))
      else Inl KeyError)"












definition name_count_frame :: "(py_str \<times> int) list \<Rightarrow> string list \<times> cell list list" where
  "name_count_frame pairs =
     ([''NOME'', ''sistemas_bancarios''], map (\<lambda>r. [StrCell (fst r), IntCell (snd r)]) pairs)"

section \<open>The script, one render cycle\<close>

text \<open>
  Both loads run before the results are looked at; \<^verbatim>\<open>st.stop()\<close> ends the cycle. After
  that the frames are reprojected, the counts are attached, the map is put together and
  shown, and the CSV is offered. An exception that nothing catches ends the cycle with
  what was shown before it. The tooltip of the polygon layer asserts that its fields
  are properties of the first feature, so a polygon frame without rows or without the
  column \<^verbatim>\<open>NOME\<close> ends the cycle with an \<^verbatim>\<open>AssertionError\<close> before the map is shown.
  The legend, the layer control and the measuring tool are fixed widgets and are left
  out, as are the title and the explanatory texts.
\<close>

datatype outcome = Stopped | Crashed py_error | Finished gdf

fun cell_int :: "cell \<Rightarrow> int" where
  "cell_int (IntCell i) = i"
| "cell_int _ = 0"

definition choropleth :: "gdf \<Rightarrow> py_error + layer" where
  "choropleth df =
     (case cols df ''sistemas_bancarios'' of
        None \<Rightarrow> Inl KeyError
      | Some cs \<Rightarrow>
          (case fill_colors (map cell_int cs) of
             Inl e \<Rightarrow> Inl e
           | Inr fs \<Rightarrow>
               (case cols df ''NOME'' of
                  None \<Rightarrow> Inl AssertionError
                | Some names \<Rightarrow>
                    if geoms df = [] then Inl AssertionError
                    else Inr (GeoJson (zip names (zip (map cell_int cs) fs))))))"

definition process :: "world \<Rightarrow> config \<Rightarrow> gdf \<Rightarrow> gdf \<Rightarrow> ui list \<times> outcome" where
  "process w cfg b0 s0 =
     (case to_crs (project w) 4326 b0 of
        Inl e \<Rightarrow> ([], Crashed e)
      | Inr b1 \<Rightarrow>
     (case to_crs (project w) 4326 s0 of
        Inl e \<Rightarrow> ([], Crashed e)
      | Inr s1 \<Rightarrow>
     (let b2 = aggregate (geos_contains w) b1 s1 in
     (case choropleth b2 of
        Inl e \<Rightarrow> ([], Crashed e)
      | Inr geo \<Rightarrow>
     (case locations (geoms s1) of
        Inl e \<Rightarrow> ([], Crashed e)
      | Inr locs \<Rightarrow>
     (let m = St_folium (tile_layer cfg) (geo # point_layers cfg locs) in
     (case select_columns b2 [''NOME'', ''sistemas_bancarios''] of
        Inl e \<Rightarrow> ([m], Crashed e)
      | Inr t \<Rightarrow>
     (case convert_df (platform w) t of
        Inl e \<Rightarrow> ([m], Crashed e)
      | Inr csv \<Rightarrow> ([m, St_download_button csv], Finished b2)))))))))"

definition render_cycle :: "world \<Rightarrow> config \<Rightarrow> ui list \<times> outcome" where
  "render_cycle w cfg =
     (let l1 = load_geojson_from_github w BAIRROS_URL;
          l2 = load_geojson_from_github w SB_URL
      in case snd l1 of
           None \<Rightarrow> (fst l1 @ fst l2, Stopped)
         | Some bairros_data \<Rightarrow>
             (case snd l2 of
                None \<Rightarrow> (fst l1 @ fst l2, Stopped)
              | Some df_sb \<Rightarrow>
                  (fst l1 @ fst l2 @ fst (process w cfg bairros_data df_sb),
                   snd (process w cfg bairros_data df_sb))))"

fun is_St_error :: "ui \<Rightarrow> bool" where
  "is_St_error (St_error _) = True"
| "is_St_error _ = False"




text \<open>
  The geometries the specification lets the marker and heat-map layers consume are those
  that are present, of type Point and not empty (\<open>is_simple_point\<close> above); the
  location of such a point is its latitude followed by its longitude.
\<close>

fun point_y_x :: "geometry option \<Rightarrow> real list" where
  "point_y_x (Some (Point (Some (x, y)))) = [y, x]"
| "point_y_x _ = []"

section \<open>Example inputs\<close>

text \<open>
  Two frames as the loader may return them, and three worlds: one whose network is
  down, one whose server answers with a page that is no GeoJSON, one whose server does
  not have the files, and one in which both layers load. A frame declared to be in EPSG:4326 whose coordinates are metres, and a
  frame in another reference system.
\<close>

definition bairros_example :: gdf where
  "bairros_example = \<lparr>crs = Some 4326, geoms = [Some square, Some far_square],
     cols = [''NOME'' \<mapsto> [StrCell (ascii ''Centro''), StrCell (ascii ''Batel'')]]\<rparr>"

definition points_example :: gdf where
  "points_example = \<lparr>crs = Some 4326,
     geoms = [Some (Point (Some (1, 1))), None, Some (Point None), Some (Point (Some (2, 3)))],
     cols = Map.empty\<rparr>"

definition offline_world :: world where
  "offline_world = \<lparr>
     requests_get = (\<lambda>u. Inl ''Connection refused''),
     read_file = (\<lambda>c. Inl ''not recognized as a supported file format''),
     project = shift_projection, geos_contains = rect_contains, platform = Posix\<rparr>"

definition garbled_world :: world where
  "garbled_world = \<lparr>
     requests_get = (\<lambda>u. Inr \<lparr>status_code = 200, reason = ''OK'', url = u, content = ''<html>''\<rparr>),
     read_file = (\<lambda>c. Inl ''not recognized as a supported file format''),
     project = shift_projection, geos_contains = rect_contains, platform = Posix\<rparr>"

definition not_found_world :: world where
  "not_found_world = \<lparr>
     requests_get = (\<lambda>u. Inr \<lparr>status_code = 404, reason = ''Not Found'', url = u, content = ''404''\<rparr>),
     read_file = (\<lambda>c. Inl ''not recognized as a supported file format''),
     project = shift_projection, geos_contains = rect_contains, platform = Posix\<rparr>"

definition example_world :: world where
  "example_world = \<lparr>
     requests_get = (\<lambda>u. Inr \<lparr>status_code = 200, reason = ''OK'', url = u,
        content = (if u = BAIRROS_URL then ''bairros'' else ''points'')\<rparr>),
     read_file = (\<lambda>c. if c = ''bairros'' then Inr bairros_example else Inr points_example),
     project = shift_projection, geos_contains = rect_contains, platform = Posix\<rparr>"

definition example_config :: config where
  "example_config = \<lparr>tile_layer = ''OpenStreetMap'', show_heatmap = True, show_clusters = True\<rparr>"

definition mislabelled_frame :: gdf where
  "mislabelled_frame =
     \<lparr>crs = Some 4326, geoms = [Some (Point (Some (674000, 7180000)))], cols = Map.empty\<rparr>"

definition mercator_frame :: gdf where
  "mercator_frame = \<lparr>crs = Some 3857, geoms = [Some (Point (Some (1, 2)))], cols = Map.empty\<rparr>"

section \<open>Properties of the aggregation\<close>

lemma length_sistemas_bancarios:
  "length (sistemas_bancarios contains left right) = length left"
  by (simp add: sistemas_bancarios_def reindex_def)

lemma fst_left_rows: "r \<in> set (left_rows contains left right i) \<Longrightarrow> fst r = i"
  by (auto simp: left_rows_def split: list.splits)

lemma length_left_rows:
  "length (left_rows contains left right i) = max 1 (length (matches contains (left ! i) right))"
  by (simp add: left_rows_def split: list.splits)

lemma filter_left_rows:
  "filter (\<lambda>r. fst r = k) (left_rows contains left right i) =
     (if i = k then left_rows contains left right i else [])"
  by (auto simp: filter_empty_conv dest: fst_left_rows intro!: filter_True)

lemma count_concat_rows:
  "distinct is \<Longrightarrow>
   length (filter (\<lambda>r. fst r = k) (concat (map (left_rows contains left right) is))) =
     (if k \<in> set is then length (left_rows contains left right k) else 0)"
  by (induction "is") (auto simp: filter_left_rows)

text \<open>Every polygon is a group of the join, so the fill value of the reindexing is never used.\<close>

lemma group_size:
  "k < length left \<Longrightarrow> groupby_size (sjoin_left contains left right) k =
     Some (int (max 1 (length (matches contains (left ! k) right))))"
  by (simp add: groupby_size_def sjoin_left_def count_concat_rows length_left_rows Let_def)

lemma count_nth:
  "i < length left \<Longrightarrow> sistemas_bancarios contains left right ! i =
     int (max 1 (length (matches contains (left ! i) right)))"
  by (simp add: sistemas_bancarios_def reindex_def group_size)

lemma length_matches:
  "length (matches contains p right) = length (filter (pair_matches contains p) right)"
proof -
  have "filter (pair_matches contains p) (map (nth right) [0..<length right]) =
        map (nth right) (matches contains p right)"
    by (simp add: matches_def filter_map comp_def)
  then have "length (filter (pair_matches contains p) (map (nth right) [0..<length right])) =
        length (matches contains p right)"
    by simp
  then show ?thesis by (simp add: map_nth)
qed

lemma counts_positive:
  "c \<in> set (sistemas_bancarios contains left right) \<Longrightarrow> 1 \<le> c"
  by (auto simp: in_set_conv_nth length_sistemas_bancarios count_nth)

lemma unmatched_polygon_count:
  "i < length left \<Longrightarrow> \<not> list_ex (pair_matches contains (left ! i)) right \<Longrightarrow>
   sistemas_bancarios contains left right ! i = 1"
  by (simp add: count_nth length_matches list_ex_iff filter_empty_conv)

lemmas aggregate_eval =
  sistemas_bancarios_def reindex_def groupby_size_def sjoin_left_def left_rows_def
  matches_def pair_matches_def square_def far_square_def wide_square_def inside_def
  within_closed_def

text \<open>
  C1. The specification says that a polygon containing no point of the point layer gets
  the count 0, and that every polygon has an entry. The second half holds
  (\<open>length_sistemas_bancarios\<close>). The first does not: the left join keeps such a polygon
  as one row without a right partner, and \<^verbatim>\<open>size()\<close> counts that row. With two polygons
  and one point lying in the first, the empty second polygon gets the same count 1 as
  the first.
\<close>

theorem empty_polygon_counted_once:
  "sistemas_bancarios rect_contains [Some square, Some far_square] [Some (Point (Some (1, 1)))]
     = [1, 1]"
  by (simp add: aggregate_eval)

text \<open>
  C2, as the code has it. When at least one geometry of the point layer satisfies the
  containment predicate with polygon \<open>i\<close>, the count of that polygon is the number of
  non-missing, non-empty geometries of the point layer, of any geometry type, that
  satisfy the predicate with it. The count of one polygon depends on no other polygon,
  so a geometry lying in several overlapping polygons is counted by each of them.
\<close>

theorem matched_polygon_count:
  "i < length left \<Longrightarrow> list_ex (pair_matches contains (left ! i)) right \<Longrightarrow>
   sistemas_bancarios contains left right ! i =
     int (length (filter (pair_matches contains (left ! i)) right))"
proof -
  assume i: "i < length left" and ex: "list_ex (pair_matches contains (left ! i)) right"
  from ex have "filter (pair_matches contains (left ! i)) right \<noteq> []"
    by (simp add: list_ex_iff filter_empty_conv)
  then have "1 \<le> length (matches contains (left ! i) right)"
    by (simp add: length_matches Suc_le_eq)
  with i show ?thesis
    by (simp add: count_nth length_matches max_def)
qed

theorem matched_polygon_count_witness:
  "0 < length [Some square, Some wide_square] \<and>
   list_ex (pair_matches rect_contains ([Some square, Some wide_square] ! 0))
     [Some (Point (Some (1, 1))), Some (Point (Some (5, 5))), Some (Point None), None,
      Some (Point (Some (3, 3)))] \<and>
   sistemas_bancarios rect_contains [Some square, Some wide_square]
     [Some (Point (Some (1, 1))), Some (Point (Some (5, 5))), Some (Point None), None,
      Some (Point (Some (3, 3)))] ! 0 = 2"
  using matched_polygon_count [of 0 "[Some square, Some wide_square]" rect_contains
    "[Some (Point (Some (1, 1))), Some (Point (Some (5, 5))), Some (Point None), None,
      Some (Point (Some (3, 3)))]"]
  by (simp add: pair_matches_def square_def wide_square_def inside_def)

lemma overlapping_polygons_both_count:
  "sistemas_bancarios rect_contains [Some square, Some wide_square]
     [Some (Point (Some (1, 1))), Some (Point (Some (5, 5))), Some (Point None), None,
      Some (Point (Some (3, 3)))] = [2, 3]"
  by (simp add: aggregate_eval)

text \<open>
  C2, as the specification states it, fails: the join does not look at the geometry
  type, so a multi-point lying in the square is counted beside the simple point.
\<close>

theorem multipoint_is_counted:
  "sistemas_bancarios rect_contains [Some square]
     [Some (Point (Some (1, 1))), Some (MultiPoint [(2, 2), (3, 3)])]
   \<noteq> [spec_point_count rect_contains (Some square)
     [Some (Point (Some (1, 1))), Some (MultiPoint [(2, 2), (3, 3)])]]"
  by (simp add: aggregate_eval spec_point_count_def)

text \<open>
  C3. Every count is an integer and not negative (\<open>counts_positive\<close>: it is at least 1).
  The sum over disjoint polygons is not the number of points lying in a polygon: with
  two disjoint squares and one point inside the first, the counts add up to 2.
\<close>

theorem sum_of_counts_exceeds_points:
  "sum_list (sistemas_bancarios rect_contains [Some square, Some far_square]
      [Some (Point (Some (2, 3)))]) = 2 \<and>
   spec_points_inside_any rect_contains [Some square, Some far_square]
      [Some (Point (Some (2, 3)))] = 1"
  by (simp add: aggregate_eval spec_points_inside_any_def)

section \<open>Properties of the loader and of the halt on failure\<close>

lemma load_None_iff: "snd (load_geojson_from_github w u) = None \<longleftrightarrow> isl (fetch_and_parse w u)"
  by (simp add: load_geojson_from_github_def split: sum.splits)

lemma load_msgs: "list_all is_St_error (fst (load_geojson_from_github w u))"
  by (simp add: load_geojson_from_github_def split: sum.splits)

lemma load_names_url:
  "isl (fetch_and_parse w u) \<Longrightarrow>
   St_error (''URL tentada: '' @ u) \<in> set (fst (load_geojson_from_github w u))"
  by (cases "fetch_and_parse w u") (simp_all add: load_geojson_from_github_def)

text \<open>
  C4. In a render cycle in which loading either layer fails (the request raises, the
  status is an error status, or the payload does not parse), the cycle stops: all that
  is shown are error messages, hence no map and no download, the counts are never
  computed, and for each failed layer there is a message naming its URL.
\<close>

theorem load_failure_stops:
  assumes "isl (fetch_and_parse w BAIRROS_URL) \<or> isl (fetch_and_parse w SB_URL)"
  shows "snd (render_cycle w cfg) = Stopped \<and>
         list_all is_St_error (fst (render_cycle w cfg)) \<and>
         (isl (fetch_and_parse w BAIRROS_URL) \<longrightarrow>
            St_error (''URL tentada: '' @ BAIRROS_URL) \<in> set (fst (render_cycle w cfg))) \<and>
         (isl (fetch_and_parse w SB_URL) \<longrightarrow>
            St_error (''URL tentada: '' @ SB_URL) \<in> set (fst (render_cycle w cfg)))"
proof -
  have out: "snd (render_cycle w cfg) = Stopped \<and>
     fst (render_cycle w cfg) =
       fst (load_geojson_from_github w BAIRROS_URL) @ fst (load_geojson_from_github w SB_URL)"
    using assms
    by (auto simp: render_cycle_def Let_def load_None_iff [symmetric] split: option.splits)
  then show ?thesis
    using load_msgs [of w BAIRROS_URL] load_msgs [of w SB_URL]
      load_names_url [of w BAIRROS_URL] load_names_url [of w SB_URL]
    by auto
qed

theorem load_failure_stops_witness:
  "(isl (fetch_and_parse garbled_world BAIRROS_URL) \<or>
    isl (fetch_and_parse garbled_world SB_URL)) \<and>
   snd (render_cycle garbled_world example_config) = Stopped \<and>
   St_error (''URL tentada: '' @ SB_URL) \<in> set (fst (render_cycle garbled_world example_config))"
  using load_failure_stops [of garbled_world example_config]
  by (simp add: fetch_and_parse_def garbled_world_def raise_for_status_def)

lemma not_found_message:
  "fetch_and_parse not_found_world SB_URL = Inl (''404 Client Error: Not Found for url: '' @ SB_URL)"
  by (simp add: fetch_and_parse_def not_found_world_def raise_for_status_def str_int_def
      digits.simps digit_char_def)

text \<open>
  C6, as the code has it. The loader returns the parsed frame exactly when the request
  returned a response whose status is not between 400 and 599 and the payload parsed;
  then nothing is shown. On every failure it returns \<^verbatim>\<open>None\<close> and shows two messages:
  the text of the exception that was raised, by the request, by the status check or
  by the parser, and the URL tried. It raises nothing to its caller.
\<close>

theorem loader_result:
  "(snd (load_geojson_from_github w u) = Some g \<longleftrightarrow>
      (\<exists>r. requests_get w u = Inr r \<and> \<not> (400 \<le> status_code r \<and> status_code r < 600) \<and>
           read_file w (content r) = Inr g)) \<and>
   (\<forall>e. fetch_and_parse w u = Inl e \<longrightarrow>
      load_geojson_from_github w u =
        ([St_error (''Erro ao carregar o arquivo: '' @ e), St_error (''URL tentada: '' @ u)],
         None)) \<and>
   (\<forall>g'. fetch_and_parse w u = Inr g' \<longrightarrow> load_geojson_from_github w u = ([], Some g')) \<and>
   (\<forall>e. requests_get w u = Inl e \<longrightarrow> fetch_and_parse w u = Inl e) \<and>
   (\<forall>r e. requests_get w u = Inr r \<and> raise_for_status r = Inl e \<longrightarrow>
      fetch_and_parse w u = Inl e) \<and>
   (\<forall>r e. requests_get w u = Inr r \<and> raise_for_status r = Inr () \<and>
      read_file w (content r) = Inl e \<longrightarrow> fetch_and_parse w u = Inl e)"
  by (auto simp: load_geojson_from_github_def fetch_and_parse_def raise_for_status_def
      split: sum.splits if_splits)

theorem loader_result_witness:
  "load_geojson_from_github offline_world BAIRROS_URL =
     ([St_error ''Erro ao carregar o arquivo: Connection refused'',
       St_error (''URL tentada: '' @ BAIRROS_URL)], None) \<and>
   load_geojson_from_github garbled_world SB_URL =
     ([St_error ''Erro ao carregar o arquivo: not recognized as a supported file format'',
       St_error (''URL tentada: '' @ SB_URL)], None) \<and>
   load_geojson_from_github not_found_world SB_URL =
     ([St_error (''Erro ao carregar o arquivo: 404 Client Error: Not Found for url: '' @ SB_URL),
       St_error (''URL tentada: '' @ SB_URL)], None) \<and>
   load_geojson_from_github example_world SB_URL = ([], Some points_example)"
proof -
  have "fetch_and_parse offline_world BAIRROS_URL = Inl ''Connection refused''"
    using loader_result [of offline_world BAIRROS_URL]
    by (simp add: offline_world_def)
  moreover have "fetch_and_parse garbled_world SB_URL =
      Inl ''not recognized as a supported file format''"
    using loader_result [of garbled_world SB_URL]
    by (simp add: garbled_world_def raise_for_status_def)
  moreover have "fetch_and_parse example_world SB_URL = Inr points_example"
    by (simp add: fetch_and_parse_def example_world_def raise_for_status_def
        BAIRROS_URL_def SB_URL_def)
  ultimately show ?thesis
    using loader_result [of offline_world BAIRROS_URL] loader_result [of garbled_world SB_URL]
      loader_result [of not_found_world SB_URL] loader_result [of example_world SB_URL]
      not_found_message
    by simp
qed

text \<open>
  C6, as the specification states it, fails: the caller gets the same value, \<^verbatim>\<open>None\<close>,
  when the request raised and when the payload did not parse.
\<close>

theorem failure_kinds_look_alike:
  "isl (requests_get offline_world BAIRROS_URL) \<and>
   \<not> isl (requests_get garbled_world BAIRROS_URL) \<and>
   snd (load_geojson_from_github offline_world BAIRROS_URL) = None \<and>
   snd (load_geojson_from_github garbled_world BAIRROS_URL) = None"
  by (simp add: load_geojson_from_github_def fetch_and_parse_def raise_for_status_def
      offline_world_def garbled_world_def)

section \<open>Properties of the normalizer\<close>

lemma coords_map_coords: "coords (map_coords f a) = map f (coords a)"
proof (cases a)
  case (Point p)
  then show ?thesis by (cases p) simp_all
next
  case (MultiPolygon rings)
  then show ?thesis by (simp add: map_concat)
qed simp_all

lemma frame_coords_map:
  "concat (map (\<lambda>g. case g of None \<Rightarrow> [] | Some a \<Rightarrow> coords a)
     (map (map_option (map_coords f)) gs)) =
   map f (concat (map (\<lambda>g. case g of None \<Rightarrow> [] | Some a \<Rightarrow> coords a) gs))"
proof (induction gs)
  case Nil
  then show ?case by simp
next
  case (Cons g gs)
  then show ?case by (cases g) (simp_all add: coords_map_coords)
qed

lemma all_in_bounds_iff: "all_in_bounds df \<longleftrightarrow> list_all in_bounds (frame_coords df)"
proof -
  have "list_all (\<lambda>g. case g of None \<Rightarrow> True | Some a \<Rightarrow> list_all in_bounds (coords a)) gs \<longleftrightarrow>
        list_all in_bounds (concat (map (\<lambda>g. case g of None \<Rightarrow> [] | Some a \<Rightarrow> coords a) gs))"
    for gs :: "geometry option list"
  proof (induction gs)
    case Nil
    then show ?case by simp
  next
    case (Cons g gs)
    then show ?case by (cases g) simp_all
  qed
  then show ?thesis by (simp add: all_in_bounds_def frame_coords_def)
qed

lemma to_crs_raises_iff: "to_crs proj epsg df = Inl e \<longleftrightarrow> crs df = None \<and> e = ValueError"
  by (auto simp: to_crs_def split: option.splits)

lemma to_crs_reprojects:
  assumes "to_crs proj epsg df = Inr df'" and "crs df = Some c" and "c \<noteq> epsg"
  shows "cols df' = cols df"
    and "geoms df' = map (map_option (map_coords (proj c epsg))) (geoms df)"
    and "frame_coords df' = map (proj c epsg) (frame_coords df)"
    and "all_in_bounds df' \<longleftrightarrow> list_all (\<lambda>p. in_bounds (proj c epsg p)) (frame_coords df)"
proof -
  from assms have df': "df' = df\<lparr>crs := Some epsg,
      geoms := map (map_option (map_coords (proj c epsg))) (geoms df)\<rparr>"
    by (simp add: to_crs_def)
  then show "cols df' = cols df"
    and g: "geoms df' = map (map_option (map_coords (proj c epsg))) (geoms df)"
    by simp_all
  show fc: "frame_coords df' = map (proj c epsg) (frame_coords df)"
    unfolding frame_coords_def g by (rule frame_coords_map)
  show "all_in_bounds df' \<longleftrightarrow> list_all (\<lambda>p. in_bounds (proj c epsg p)) (frame_coords df)"
    by (simp add: all_in_bounds_iff fc list_all_iff)
qed

text \<open>
  C8, as the code has it. When the normalizer does not raise, both frames are tagged
  EPSG:4326 and so share one reference system before the join. A frame that came in
  another reference system keeps its attribute columns and has every coordinate replaced
  by its projection into EPSG:4326, so its coordinates lie within the longitude and
  latitude bounds exactly when the projected coordinates do. A frame that was tagged
  EPSG:4326 already comes back unchanged, whatever its coordinates are.
\<close>

theorem normalizer_common_system:
  assumes "to_crs proj 4326 b0 = Inr b1" and "to_crs proj 4326 s0 = Inr s1"
  shows "crs b1 = Some 4326 \<and> crs s1 = Some 4326 \<and> crs b1 = crs s1 \<and>
         (crs b0 = Some 4326 \<longrightarrow> b1 = b0) \<and> (crs s0 = Some 4326 \<longrightarrow> s1 = s0) \<and>
         (\<forall>c. crs b0 = Some c \<and> c \<noteq> 4326 \<longrightarrow>
            cols b1 = cols b0 \<and>
            geoms b1 = map (map_option (map_coords (proj c 4326))) (geoms b0) \<and>
            frame_coords b1 = map (proj c 4326) (frame_coords b0) \<and>
            (all_in_bounds b1 \<longleftrightarrow>
               list_all (\<lambda>p. in_bounds (proj c 4326 p)) (frame_coords b0))) \<and>
         (\<forall>c. crs s0 = Some c \<and> c \<noteq> 4326 \<longrightarrow>
            cols s1 = cols s0 \<and>
            geoms s1 = map (map_option (map_coords (proj c 4326))) (geoms s0) \<and>
            frame_coords s1 = map (proj c 4326) (frame_coords s0) \<and>
            (all_in_bounds s1 \<longleftrightarrow>
               list_all (\<lambda>p. in_bounds (proj c 4326 p)) (frame_coords s0)))"
proof -
  have tags: "crs b1 = Some 4326 \<and> crs s1 = Some 4326 \<and> crs b1 = crs s1 \<and>
         (crs b0 = Some 4326 \<longrightarrow> b1 = b0) \<and> (crs s0 = Some 4326 \<longrightarrow> s1 = s0)"
    using assms by (auto simp: to_crs_def split: option.splits if_splits)
  show ?thesis
    using tags to_crs_reprojects [OF assms(1)] to_crs_reprojects [OF assms(2)]
    by blast
qed

theorem normalizer_common_system_witness:
  "to_crs shift_projection 4326 mercator_frame =
     Inr \<lparr>crs = Some 4326, geoms = [Some (Point (Some (2, 3)))], cols = Map.empty\<rparr> \<and>
   frame_coords \<lparr>crs = Some 4326, geoms = [Some (Point (Some (2, 3)))], cols = Map.empty\<rparr> =
     map (shift_projection 3857 4326) (frame_coords mercator_frame) \<and>
   all_in_bounds \<lparr>crs = Some 4326, geoms = [Some (Point (Some (2, 3)))], cols = Map.empty\<rparr> \<and>
   to_crs shift_projection 4326 mislabelled_frame = Inr mislabelled_frame \<and>
   crs mislabelled_frame = Some 4326"
proof -
  let ?r = "\<lparr>crs = Some 4326, geoms = [Some (Point (Some (2, 3)))], cols = Map.empty\<rparr>"
  have b: "to_crs shift_projection 4326 mercator_frame = Inr ?r"
    by (simp add: to_crs_def mercator_frame_def shift_projection_def)
  have s: "to_crs shift_projection 4326 mislabelled_frame = Inr mislabelled_frame"
    by (simp add: to_crs_def mislabelled_frame_def)
  have c: "crs mercator_frame = Some 3857 \<and> (3857 :: nat) \<noteq> 4326"
    by (simp add: mercator_frame_def)
  have p: "list_all (\<lambda>p. in_bounds (shift_projection 3857 4326 p)) (frame_coords mercator_frame)"
    by (simp add: frame_coords_def mercator_frame_def shift_projection_def in_bounds_def)
  from normalizer_common_system [OF b s] c p
  have "frame_coords ?r = map (shift_projection 3857 4326) (frame_coords mercator_frame)"
    and "all_in_bounds ?r" and "crs mislabelled_frame = Some 4326"
    by blast+
  with b s show ?thesis by blast
qed

text \<open>
  C8, as the specification states it, fails: a frame declared to be in EPSG:4326 is not
  touched, so coordinates outside the longitude and latitude bounds stay as they are.
\<close>

theorem declared_frame_out_of_bounds:
  "to_crs shift_projection 4326 mislabelled_frame = Inr mislabelled_frame \<and>
   \<not> all_in_bounds mislabelled_frame"
  by (simp add: to_crs_def mislabelled_frame_def all_in_bounds_def in_bounds_def)

section \<open>Properties of the styler\<close>

lemma traverse_const:
  "(\<And>x. x \<in> set xs \<Longrightarrow> f x = Inr y) \<Longrightarrow> traverse f xs = Inr (replicate (length xs) y)"
  by (induction xs) auto

lemma traverse_map:
  "(\<And>x. x \<in> set xs \<Longrightarrow> f x = Inr (h x)) \<Longrightarrow> traverse f xs = Inr (map h xs)"
  by (induction xs) auto

lemma first_color: "rgba_hex_str (hd palette) = ''#fef9efff''"
  by (simp add: rgba_hex_str_def palette_def py_int_def fmt_02x_def floor_eq_iff
      digits.simps digit_char_def)

lemma degenerate_index:
  "LinearColormap palette v v = Inr \<lparr>cm_index = [v, v, v], cm_colors = palette\<rparr>"
  by (simp add: LinearColormap_def palette_def Let_def upt_rec)

lemma degenerate_call:
  "LinearColormap palette v v = Inr cm \<Longrightarrow> call_colormap cm v = Inr ''#fef9efff''"
  by (auto simp: degenerate_index call_colormap_def rgba_floats_tuple_def first_color)

lemma all_equal:
  assumes "Min (set counts) = Max (set counts)" and "c \<in> set counts"
  shows "c = Min (set counts)"
proof -
  have "Min (set counts) \<le> c" "c \<le> Max (set counts)"
    using assms(2) by simp_all
  with assms(1) show ?thesis by simp
qed

text \<open>
  C7. When the least count equals the greatest, the three thresholds of the colour map
  coincide, every count is at the first threshold, and every polygon gets the first
  colour of the palette; no quotient is formed and nothing is raised.
\<close>

theorem degenerate_scale_one_color:
  assumes "counts \<noteq> []" and "Min (set counts) = Max (set counts)"
  shows "fill_colors counts = Inr (replicate (length counts) ''#fef9efff'')"
proof -
  let ?v = "real_of_int (Min (set counts))"
  obtain cm where cm: "LinearColormap palette ?v (real_of_int (Max (set counts))) = Inr cm"
    using assms(2) by (simp add: degenerate_index)
  then have "LinearColormap palette ?v ?v = Inr cm"
    using assms(2) by simp
  then have call: "call_colormap cm ?v = Inr ''#fef9efff''"
    by (rule degenerate_call)
  have "traverse (\<lambda>c. call_colormap cm (real_of_int c)) counts =
        Inr (replicate (length counts) ''#fef9efff'')"
  proof (rule traverse_const)
    fix c assume "c \<in> set counts"
    then have "c = Min (set counts)" using assms(2) by (rule all_equal [rotated])
    then show "call_colormap cm (real_of_int c) = Inr ''#fef9efff''"
      using call by simp
  qed
  with cm assms(1) show ?thesis
    by (cases counts) (simp_all add: fill_colors_def)
qed

theorem degenerate_scale_one_color_witness:
  "[3, 3, 3] \<noteq> ([] :: int list) \<and> Min (set [3, 3, 3 :: int]) = Max (set [3, 3, 3]) \<and>
   fill_colors [3, 3, 3] = Inr [''#fef9efff'', ''#fef9efff'', ''#fef9efff'']"
  using degenerate_scale_one_color [of "[3, 3, 3]"] by (simp add: numeral_3_eq_3)

section \<open>Properties of the marker and heat-map layers\<close>

lemma keeps_iff: "keeps g = is_simple_point g"
  by (cases g rule: is_simple_point.cases) (simp_all add: keeps_def truthy_def)

lemma is_simple_point_iff:
  "is_simple_point g \<longleftrightarrow> (\<exists>a. g = Some a \<and> geom_type a = ''Point'' \<and> \<not> is_empty a)"
  by (cases g rule: is_simple_point.cases) auto

lemma y_x_simple: "is_simple_point g \<Longrightarrow> y_x g = Inr (point_y_x g)"
  by (cases g rule: is_simple_point.cases) auto

lemma locations_eq: "locations gs = Inr (map point_y_x (filter is_simple_point gs))"
  unfolding locations_def keeps_iff [abs_def]
  by (rule traverse_map) (simp add: y_x_simple)

text \<open>
  C10. The list of locations is built without an error from exactly the geometries that
  are present, of type Point and not empty, in their order; the marker layer and the
  heat map are given this list and nothing else; and when the list is empty no heat map
  is among the layers.
\<close>

theorem layers_use_simple_points:
  "\<exists>locs. locations gs = Inr locs \<and> locs = map point_y_x (filter is_simple_point gs) \<and>
     (\<forall>l \<in> set (point_layers cfg locs). layer_locations l = locs) \<and>
     (locs = [] \<longrightarrow> \<not> list_ex is_HeatMap (point_layers cfg locs))"
  by (simp add: locations_eq point_layers_def)

theorem layers_use_simple_points_witness:
  "locations [None, Some (Point None), Some (MultiPoint [(1, 1)])] = Inr [] \<and>
   \<not> list_ex is_HeatMap (point_layers example_config [])"
  using layers_use_simple_points
    [of "[None, Some (Point None), Some (MultiPoint [(1, 1)])]" example_config]
  by simp

section \<open>Properties of the export\<close>





























lemmas csv_eval =
  convert_df_def name_count_frame_def to_csv_def csv_row_def csv_field_def
  csv_special_def ascii_def str_int_def digits.simps digit_char_def encode_utf8_def
  utf8_char_def char_of_eq_iff



text \<open>
  Rows as they are written: a name without a comma, a double quote, a carriage return
  or a line feed stands as it is (\<open>plain_spec_field\<close>); the name \<^verbatim>\<open>a,b\<close>, a name with a
  carriage return between two letters and a name with a double quote between two
  letters stand between double quotes, the double quote doubled.
\<close>

lemma quoted_rows:
  "convert_df Posix (name_count_frame [(ascii ''a,b'', 1), ([97, 13, 98], 2), ([97, 34, 98], 3)]) =
     Inr (''NOME,sistemas_bancarios'' @ [CHR 0x0A, CHR 0x22] @ ''a,b'' @ [CHR 0x22] @
          '',1'' @ [CHR 0x0A, CHR 0x22, CHR ''a'', CHR 0x0D, CHR ''b'', CHR 0x22] @ '',2'' @
          [CHR 0x0A, CHR 0x22, CHR ''a'', CHR 0x22, CHR 0x22, CHR ''b'', CHR 0x22] @ '',3'' @
          [CHR 0x0A])"
  by (simp add: csv_eval)

section \<open>What the aggregation leaves unchanged\<close>

lemma process_Finished:
  "snd (process w cfg b0 s0) = Finished df \<Longrightarrow>
   \<exists>b1 s1. to_crs (project w) 4326 b0 = Inr b1 \<and> to_crs (project w) 4326 s0 = Inr s1 \<and>
     df = aggregate (geos_contains w) b1 s1"
  by (auto simp: process_def Let_def split: sum.splits)

lemma render_cycle_Finished:
  "snd (render_cycle w cfg) = Finished df \<Longrightarrow>
   \<exists>b0 s0. snd (load_geojson_from_github w BAIRROS_URL) = Some b0 \<and>
     snd (load_geojson_from_github w SB_URL) = Some s0 \<and>
     snd (process w cfg b0 s0) = Finished df"
  by (auto simp: render_cycle_def Let_def split: option.splits)

lemma counts_example:
  "sistemas_bancarios rect_contains (geoms bairros_example) (geoms points_example) = [2, 1]"
  by (simp add: bairros_example_def points_example_def aggregate_eval)

lemma loads_example:
  "load_geojson_from_github example_world BAIRROS_URL = ([], Some bairros_example)"
  "load_geojson_from_github example_world SB_URL = ([], Some points_example)"
  by (simp_all add: load_geojson_from_github_def fetch_and_parse_def raise_for_status_def
      example_world_def BAIRROS_URL_def SB_URL_def)

lemma colors_example: "fill_colors [2, 1] = Inr [''#d8b07aff'', ''#fef9efff'']"
  by (simp add: fill_colors_def LinearColormap_def palette_def Let_def upt_rec
      call_colormap_def rgba_floats_tuple_def rgba_hex_str_def py_int_def fmt_02x_def
      floor_eq_iff digits.simps digit_char_def)

lemma world_example:
  "project example_world = shift_projection" "geos_contains example_world = rect_contains"
  "platform example_world = Posix"
  by (simp_all add: example_world_def)

lemma to_crs_example:
  "to_crs shift_projection 4326 bairros_example = Inr bairros_example"
  "to_crs shift_projection 4326 points_example = Inr points_example"
  by (simp_all add: to_crs_def bairros_example_def points_example_def)

lemma cols_example:
  "cols (aggregate rect_contains bairros_example points_example) ''sistemas_bancarios'' =
     Some [IntCell 2, IntCell 1]"
  "cols (aggregate rect_contains bairros_example points_example) ''NOME'' =
     Some [StrCell (ascii ''Centro''), StrCell (ascii ''Batel'')]"
  "geoms (aggregate rect_contains bairros_example points_example) =
     [Some square, Some far_square]"
  by (simp_all add: aggregate_def counts_example) (simp_all add: bairros_example_def)

lemma choropleth_example:
  "choropleth (aggregate rect_contains bairros_example points_example) =
     Inr (GeoJson [(StrCell (ascii ''Centro''), 2, ''#d8b07aff''),
                   (StrCell (ascii ''Batel''), 1, ''#fef9efff'')])"
  by (simp add: choropleth_def cols_example colors_example)

lemma locations_example: "locations (geoms points_example) = Inr [[1, 1], [3, 2]]"
  by (simp add: locations_def points_example_def keeps_def truthy_def)

lemma select_example:
  "select_columns (aggregate rect_contains bairros_example points_example)
     [''NOME'', ''sistemas_bancarios''] =
     Inr ([''NOME'', ''sistemas_bancarios''],
          [[StrCell (ascii ''Centro''), IntCell 2], [StrCell (ascii ''Batel''), IntCell 1]])"
  by (simp add: select_columns_def cols_example index_def cell_at_def upt_rec)

lemma csv_example:
  "convert_df Posix ([''NOME'', ''sistemas_bancarios''],
          [[StrCell (ascii ''Centro''), IntCell 2], [StrCell (ascii ''Batel''), IntCell 1]]) =
   Inr (''NOME,sistemas_bancarios'' @ [CHR 0x0A] @ ''Centro,2'' @ [CHR 0x0A] @
        ''Batel,1'' @ [CHR 0x0A])"
  by (simp add: csv_eval)

text \<open>The whole cycle on the example: the map with its three layers, then the download.\<close>

lemma process_example:
  "process example_world example_config bairros_example points_example =
    ([St_folium ''OpenStreetMap''
        [GeoJson [(StrCell (ascii ''Centro''), 2, ''#d8b07aff''),
                  (StrCell (ascii ''Batel''), 1, ''#fef9efff'')],
         MarkerCluster [[1, 1], [3, 2]], HeatMap [[1, 1], [3, 2]]],
      St_download_button (''NOME,sistemas_bancarios'' @ [CHR 0x0A] @ ''Centro,2'' @
        [CHR 0x0A] @ ''Batel,1'' @ [CHR 0x0A])],
     Finished (aggregate rect_contains bairros_example points_example))"
  by (simp add: process_def world_example to_crs_example Let_def choropleth_example
      locations_example select_example csv_example point_layers_def example_config_def)

lemma render_cycle_example:
  "snd (render_cycle example_world example_config) =
     Finished (aggregate rect_contains bairros_example points_example)"
  by (simp add: render_cycle_def loads_example process_example Let_def)

text \<open>
  C9. The frame a finished cycle ends with is the reprojected polygon frame with the
  count column set by the aggregation: its reference system, its geometries and every
  column other than \<^verbatim>\<open>sistemas_bancarios\<close>, the names among them, are those of the
  reprojected frame. The styler and the export read this frame and leave it as it is.
\<close>

theorem aggregator_sets_only_count:
  assumes "snd (render_cycle w cfg) = Finished df"
  shows "\<exists>b0 s0 b1 s1.
     snd (load_geojson_from_github w BAIRROS_URL) = Some b0 \<and>
     snd (load_geojson_from_github w SB_URL) = Some s0 \<and>
     to_crs (project w) 4326 b0 = Inr b1 \<and> to_crs (project w) 4326 s0 = Inr s1 \<and>
     df = aggregate (geos_contains w) b1 s1 \<and>
     crs df = crs b1 \<and> geoms df = geoms b1 \<and>
     (\<forall>k. k \<noteq> ''sistemas_bancarios'' \<longrightarrow> cols df k = cols b1 k) \<and>
     cols df ''sistemas_bancarios'' =
       Some (map IntCell (sistemas_bancarios (geos_contains w) (geoms b1) (geoms s1)))"
proof -
  from assms obtain b0 s0 where loads:
    "snd (load_geojson_from_github w BAIRROS_URL) = Some b0"
    "snd (load_geojson_from_github w SB_URL) = Some s0"
    and fin: "snd (process w cfg b0 s0) = Finished df"
    by (auto dest: render_cycle_Finished)
  from fin obtain b1 s1 where
    "to_crs (project w) 4326 b0 = Inr b1" "to_crs (project w) 4326 s0 = Inr s1"
    "df = aggregate (geos_contains w) b1 s1"
    by (auto dest: process_Finished)
  with loads show ?thesis by (auto simp: aggregate_def)
qed

theorem aggregator_sets_only_count_witness:
  "snd (render_cycle example_world example_config) =
     Finished (aggregate rect_contains bairros_example points_example) \<and>
   cols (aggregate rect_contains bairros_example points_example) ''NOME'' =
     cols bairros_example ''NOME'' \<and>
   geoms (aggregate rect_contains bairros_example points_example) = geoms bairros_example"
  using aggregator_sets_only_count [of example_world example_config
    "aggregate rect_contains bairros_example points_example"]
  by (auto simp: render_cycle_example loads_example world_example to_crs_example)

end
